theory Spec2Isabelle
  imports Main
begin

section \<open>Values of the host language\<close>

text \<open>
  A property of a provider object is either missing (reading it gives \<open>undefined\<close>),
  present with the value \<open>null\<close>, or present with a value. The two absent forms are
  different values: \<open>undefined !== null\<close> is true.
\<close>

datatype 'a js_opt = Undefined | Null | Defined 'a

text \<open>
  Strings are sequences of bytes, the UTF-8 encoding of the text, as the source file stores
  its literals. The letters of the Spanish messages outside ASCII are two bytes each.
  The patterns searched for in provider messages are ASCII, so a pattern occurs in the
  bytes of a message exactly when it occurs in its text.
\<close>

definition n_tilde :: string where
  "n_tilde = [CHR 0xC3, CHR 0xB1]"

definition o_acute :: string where
  "o_acute = [CHR 0xC3, CHR 0xB3]"

definition e_acute :: string where
  "e_acute = [CHR 0xC3, CHR 0xA9]"

definition a_acute :: string where
  "a_acute = [CHR 0xC3, CHR 0xA1]"

text \<open>\<open>s.startsWith(p)\<close> and \<open>s.includes(p)\<close>: \<open>p\<close> occurs in \<open>s\<close> as a contiguous run.\<close>

fun starts_with :: "string \<Rightarrow> string \<Rightarrow> bool" where
  "starts_with s [] = True"
| "starts_with [] (p # ps) = False"
| "starts_with (c # cs) (p # ps) = (c = p \<and> starts_with cs ps)"

fun includes_str :: "string \<Rightarrow> string \<Rightarrow> bool" where
  "includes_str [] p = (p = [])"
| "includes_str (c # cs) p = (starts_with (c # cs) p \<or> includes_str cs p)"

section \<open>Domain model and error taxonomy (auth.types)\<close>

subsection \<open>Provider objects\<close>

text \<open>
  The provider's user: \<open>id\<close>, \<open>email?\<close>, \<open>user_metadata\<close>, \<open>created_at\<close>,
  \<open>email_confirmed_at?\<close>. Only the \<open>full_name\<close> entry of the metadata is read.
\<close>

record user_metadata =
  full_name :: "string option"

record supabase_user =
  sb_id :: string
  sb_email :: "string js_opt"
  user_metadata :: "user_metadata js_opt"
  created_at :: string
  email_confirmed_at :: "string js_opt"

record supabase_session =
  sb_user :: supabase_user
  access_token :: string
  refresh_token :: string
  expires_at :: "int js_opt"

subsection \<open>Application objects\<close>

record user =
  user_id :: string
  email :: "string js_opt"
  fullName :: "string option"
  createdAt :: string
  emailVerified :: bool

record auth_session =
  user :: user
  accessToken :: string
  refreshToken :: string
  expiresAt :: int

datatype auth_error_type =
    INVALID_CREDENTIALS
  | USER_ALREADY_EXISTS
  | EMAIL_NOT_VERIFIED
  | WEAK_PASSWORD
  | NETWORK_ERROR
  | UNKNOWN_ERROR
  | SESSION_EXPIRED
  | INVALID_TOKEN

record auth_error =
  error_type :: auth_error_type
  message :: string
  details :: "string option"

datatype 'a auth_result = Success 'a | Failure auth_error

subsection \<open>Mappers\<close>

text \<open>
  \<open>supabaseUser.user_metadata?.full_name\<close>: \<open>undefined\<close> when the metadata is
  \<open>undefined\<close> or \<open>null\<close>, the entry otherwise.
\<close>

definition optional_full_name :: "user_metadata js_opt \<Rightarrow> string option" where
  "optional_full_name m = (case m of Defined md \<Rightarrow> full_name md | _ \<Rightarrow> None)"

text \<open>
  \<open>supabaseUser.email!\<close> is a compile-time assertion: at run time the property is
  copied as it is. \<open>emailVerified\<close> is the strict comparison
  \<open>email_confirmed_at !== null\<close>.
\<close>

definition mapSupabaseUser :: "supabase_user \<Rightarrow> user" where
  "mapSupabaseUser supabaseUser =
     \<lparr> user_id = sb_id supabaseUser,
       email = sb_email supabaseUser,
       fullName = optional_full_name (user_metadata supabaseUser),
       createdAt = created_at supabaseUser,
       emailVerified = (email_confirmed_at supabaseUser \<noteq> Null) \<rparr>"

text \<open>
  \<open>x || 0\<close> on a number: \<open>0\<close> when \<open>x\<close> is \<open>undefined\<close>, \<open>null\<close> or \<open>0\<close>,
  \<open>x\<close> otherwise. Expiry times are whole seconds, so numbers are integers here.
\<close>

definition or_zero :: "int js_opt \<Rightarrow> int" where
  "or_zero x = (case x of Defined n \<Rightarrow> (if n = 0 then 0 else n) | _ \<Rightarrow> 0)"

definition mapSupabaseSession :: "supabase_session \<Rightarrow> auth_session" where
  "mapSupabaseSession supabaseSession =
     \<lparr> user = mapSupabaseUser (sb_user supabaseSession),
       accessToken = access_token supabaseSession,
       refreshToken = refresh_token supabaseSession,
       expiresAt = or_zero (expires_at supabaseSession) \<rparr>"

subsection \<open>Error messages\<close>

fun AUTH_ERROR_MESSAGES :: "auth_error_type \<Rightarrow> string" where
  "AUTH_ERROR_MESSAGES INVALID_CREDENTIALS =
     ''Correo o contrase'' @ n_tilde @ ''a incorrectos''"
| "AUTH_ERROR_MESSAGES USER_ALREADY_EXISTS = ''Ya existe una cuenta con este correo''"
| "AUTH_ERROR_MESSAGES EMAIL_NOT_VERIFIED =
     ''Por favor verifica tu correo electr'' @ o_acute @ ''nico''"
| "AUTH_ERROR_MESSAGES WEAK_PASSWORD =
     ''La contrase'' @ n_tilde @ ''a es demasiado d'' @ e_acute @ ''bil''"
| "AUTH_ERROR_MESSAGES NETWORK_ERROR =
     ''Error de conexi'' @ o_acute @ ''n. Verifica tu internet''"
| "AUTH_ERROR_MESSAGES UNKNOWN_ERROR = ''Ocurri'' @ o_acute @ '' un error inesperado''"
| "AUTH_ERROR_MESSAGES SESSION_EXPIRED =
     ''Tu sesi'' @ o_acute @ ''n ha expirado. Inicia sesi'' @ o_acute @ ''n nuevamente''"
| "AUTH_ERROR_MESSAGES INVALID_TOKEN =
     ''El enlace de recuperaci'' @ o_acute @ ''n es inv'' @ a_acute
       @ ''lido o ha expirado''"

definition createAuthError :: "auth_error_type \<Rightarrow> string option \<Rightarrow> auth_error" where
  "createAuthError type details_arg =
     \<lparr> error_type = type, message = AUTH_ERROR_MESSAGES type, details = details_arg \<rparr>"

section \<open>The provider and the run-time environment\<close>

text \<open>
  A value thrown by a call. A call that is awaited either yields its value (\<open>Inr\<close>) or
  throws (\<open>Inl\<close>).
\<close>

datatype exn = Exn string

record supabase_error =
  sb_message :: string

text \<open>
  What the operations read of a provider response \<open>{ data, error }\<close>: \<open>data.user\<close>,
  \<open>data.session\<close> and \<open>error\<close>, each \<open>None\<close> when null or missing.
\<close>

record provider_data =
  d_user :: "supabase_user option"
  d_session :: "supabase_session option"

record response =
  data :: provider_data
  error :: "supabase_error option"

text \<open>The methods of \<open>supabase.auth\<close> that the repository calls, with their arguments.\<close>

record supabase_client =
  auth_getUser :: "exn + response"
  auth_getSession :: "exn + response"
  auth_signInWithPassword :: "string \<Rightarrow> string \<Rightarrow> exn + response"
  auth_signUp :: "string \<Rightarrow> string \<Rightarrow> string \<Rightarrow> exn + response"
  auth_signOut :: "exn + response"
  auth_resetPasswordForEmail :: "string \<Rightarrow> string \<Rightarrow> exn + response"
  auth_updateUser :: "string \<Rightarrow> exn + response"

text \<open>
  The environment of a call of the repository: what \<open>createClient()\<close> gives, and the
  variable \<open>process.env.NEXT_PUBLIC_APP_URL\<close>.
\<close>

record env =
  createClient :: "exn + supabase_client"
  NEXT_PUBLIC_APP_URL :: "string option"

text \<open>The lines written by \<open>console.error(label, error)\<close>.\<close>

type_synonym console = "(string \<times> exn) list"

text \<open>\<open>const v = await p; k(v)\<close>: a throw of \<open>p\<close> leaves the block.\<close>

definition await :: "exn + 'a \<Rightarrow> ('a \<Rightarrow> exn + 'b) \<Rightarrow> exn + 'b" where
  "await p k = (case p of Inl x \<Rightarrow> Inl x | Inr v \<Rightarrow> k v)"

text \<open>\<open>try { body } catch (error) { handler }\<close>\<close>

definition try_catch ::
  "exn + 'a \<Rightarrow> (exn \<Rightarrow> console \<times> (exn + 'a)) \<Rightarrow> console \<times> (exn + 'a)" where
  "try_catch body handler = (case body of Inl x \<Rightarrow> handler x | Inr v \<Rightarrow> ([], Inr v))"

text \<open>A template literal prints a missing variable as \<open>undefined\<close>.\<close>

definition template :: "string option \<Rightarrow> string" where
  "template v = (case v of None \<Rightarrow> ''undefined'' | Some s \<Rightarrow> s)"

section \<open>The repository (auth.repository)\<close>

definition getCurrentUser :: "env \<Rightarrow> console \<times> (exn + user option)" where
  "getCurrentUser e =
     try_catch
       (await (createClient e) (\<lambda>supabase.
        await (auth_getUser supabase) (\<lambda>r.
          case error r of
            Some err \<Rightarrow> Inr None
          | None \<Rightarrow>
              (case d_user (data r) of
                 None \<Rightarrow> Inr None
               | Some u \<Rightarrow> Inr (Some (mapSupabaseUser u))))))
       (\<lambda>err. ([(''Error al obtener usuario actual:'', err)], Inr None))"

definition getCurrentSession :: "env \<Rightarrow> console \<times> (exn + auth_session option)" where
  "getCurrentSession e =
     try_catch
       (await (createClient e) (\<lambda>supabase.
        await (auth_getSession supabase) (\<lambda>r.
          case error r of
            Some err \<Rightarrow> Inr None
          | None \<Rightarrow>
              (case d_session (data r) of
                 None \<Rightarrow> Inr None
               | Some s \<Rightarrow> Inr (Some (mapSupabaseSession s))))))
       (\<lambda>err. ([(''Error al obtener sesi'' @ o_acute @ ''n actual:'', err)], Inr None))"

definition signInWithPassword ::
  "env \<Rightarrow> string \<Rightarrow> string \<Rightarrow> console \<times> (exn + auth_session auth_result)" where
  "signInWithPassword e email_arg password =
     try_catch
       (await (createClient e) (\<lambda>supabase.
        await (auth_signInWithPassword supabase email_arg password) (\<lambda>r.
          case error r of
            Some err \<Rightarrow>
              if includes_str (sb_message err) ''Invalid login credentials''
              then Inr (Failure (createAuthError INVALID_CREDENTIALS None))
              else if includes_str (sb_message err) ''Email not confirmed''
              then Inr (Failure (createAuthError EMAIL_NOT_VERIFIED None))
              else Inr (Failure (createAuthError UNKNOWN_ERROR (Some (sb_message err))))
          | None \<Rightarrow>
              (case d_session (data r) of
                 None \<Rightarrow> Inr (Failure (createAuthError UNKNOWN_ERROR None))
               | Some s \<Rightarrow> Inr (Success (mapSupabaseSession s))))))
       (\<lambda>err. ([(''Error en signInWithPassword:'', err)],
                Inr (Failure (createAuthError NETWORK_ERROR None))))"

definition signUp ::
  "env \<Rightarrow> string \<Rightarrow> string \<Rightarrow> string \<Rightarrow> console \<times> (exn + auth_session auth_result)" where
  "signUp e email_arg password fullName_arg =
     try_catch
       (await (createClient e) (\<lambda>supabase.
        await (auth_signUp supabase email_arg password fullName_arg) (\<lambda>r.
          case error r of
            Some err \<Rightarrow>
              if includes_str (sb_message err) ''User already registered''
              then Inr (Failure (createAuthError USER_ALREADY_EXISTS None))
              else if includes_str (sb_message err) ''Password''
              then Inr (Failure (createAuthError WEAK_PASSWORD None))
              else Inr (Failure (createAuthError UNKNOWN_ERROR (Some (sb_message err))))
          | None \<Rightarrow>
              (case d_session (data r) of
                 None \<Rightarrow> Inr (Failure (createAuthError UNKNOWN_ERROR None))
               | Some s \<Rightarrow> Inr (Success (mapSupabaseSession s))))))
       (\<lambda>err. ([(''Error en signUp:'', err)],
                Inr (Failure (createAuthError NETWORK_ERROR None))))"

definition signOut :: "env \<Rightarrow> console \<times> (exn + unit auth_result)" where
  "signOut e =
     try_catch
       (await (createClient e) (\<lambda>supabase.
        await (auth_signOut supabase) (\<lambda>r.
          case error r of
            Some err \<Rightarrow> Inr (Failure (createAuthError UNKNOWN_ERROR (Some (sb_message err))))
          | None \<Rightarrow> Inr (Success ()))))
       (\<lambda>err. ([(''Error en signOut:'', err)],
                Inr (Failure (createAuthError NETWORK_ERROR None))))"

definition resetPasswordRequest :: "env \<Rightarrow> string \<Rightarrow> console \<times> (exn + unit auth_result)" where
  "resetPasswordRequest e email_arg =
     try_catch
       (await (createClient e) (\<lambda>supabase.
        await (auth_resetPasswordForEmail supabase email_arg
                 (template (NEXT_PUBLIC_APP_URL e) @ ''/reset-password'')) (\<lambda>r.
          case error r of
            Some err \<Rightarrow> Inr (Failure (createAuthError UNKNOWN_ERROR (Some (sb_message err))))
          | None \<Rightarrow> Inr (Success ()))))
       (\<lambda>err. ([(''Error en resetPasswordRequest:'', err)],
                Inr (Failure (createAuthError NETWORK_ERROR None))))"

definition updatePassword :: "env \<Rightarrow> string \<Rightarrow> console \<times> (exn + unit auth_result)" where
  "updatePassword e newPassword =
     try_catch
       (await (createClient e) (\<lambda>supabase.
        await (auth_updateUser supabase newPassword) (\<lambda>r.
          case error r of
            Some err \<Rightarrow>
              if includes_str (sb_message err) ''token''
              then Inr (Failure (createAuthError INVALID_TOKEN None))
              else Inr (Failure (createAuthError UNKNOWN_ERROR (Some (sb_message err))))
          | None \<Rightarrow> Inr (Success ()))))
       (\<lambda>err. ([(''Error en updatePassword:'', err)],
                Inr (Failure (createAuthError NETWORK_ERROR None))))"

subsection \<open>The exported object\<close>

text \<open>
  \<open>authRepository\<close> is one object with seven methods. A call names the method and gives
  its arguments; what comes back is a user or null, a session or null, or a result.
\<close>

datatype operation =
    GetCurrentUser
  | GetCurrentSession
  | SignInWithPassword string string
  | SignUp string string string
  | SignOut
  | ResetPasswordRequest string
  | UpdatePassword string

datatype returned =
    UserOrNull "user option"
  | SessionOrNull "auth_session option"
  | SessionResult "auth_session auth_result"
  | VoidResult "unit auth_result"

definition returning ::
  "('a \<Rightarrow> returned) \<Rightarrow> console \<times> (exn + 'a) \<Rightarrow> console \<times> (exn + returned)" where
  "returning tag out =
     (fst out, case snd out of Inl x \<Rightarrow> Inl x | Inr v \<Rightarrow> Inr (tag v))"

fun authRepository :: "env \<Rightarrow> operation \<Rightarrow> console \<times> (exn + returned)" where
  "authRepository e GetCurrentUser = returning UserOrNull (getCurrentUser e)"
| "authRepository e GetCurrentSession = returning SessionOrNull (getCurrentSession e)"
| "authRepository e (SignInWithPassword em pw) =
     returning SessionResult (signInWithPassword e em pw)"
| "authRepository e (SignUp em pw fn) = returning SessionResult (signUp e em pw fn)"
| "authRepository e SignOut = returning VoidResult (signOut e)"
| "authRepository e (ResetPasswordRequest em) =
     returning VoidResult (resetPasswordRequest e em)"
| "authRepository e (UpdatePassword pw) = returning VoidResult (updatePassword e pw)"

text \<open>
  The provider call of each method: the client is created, then one method of
  \<open>supabase.auth\<close> is called. \<open>Inl\<close> when either throws.
\<close>

fun provider_call :: "env \<Rightarrow> operation \<Rightarrow> exn + response" where
  "provider_call e GetCurrentUser = await (createClient e) auth_getUser"
| "provider_call e GetCurrentSession = await (createClient e) auth_getSession"
| "provider_call e (SignInWithPassword em pw) =
     await (createClient e) (\<lambda>supabase. auth_signInWithPassword supabase em pw)"
| "provider_call e (SignUp em pw fn) =
     await (createClient e) (\<lambda>supabase. auth_signUp supabase em pw fn)"
| "provider_call e SignOut = await (createClient e) auth_signOut"
| "provider_call e (ResetPasswordRequest em) =
     await (createClient e) (\<lambda>supabase. auth_resetPasswordForEmail supabase em
        (template (NEXT_PUBLIC_APP_URL e) @ ''/reset-password''))"
| "provider_call e (UpdatePassword pw) =
     await (createClient e) (\<lambda>supabase. auth_updateUser supabase pw)"

text \<open>The error of a returned \<open>{success: false, error}\<close>; nothing for any other value.\<close>

fun failure_of :: "returned \<Rightarrow> auth_error option" where
  "failure_of (SessionResult (Failure err)) = Some err"
| "failure_of (VoidResult (Failure err)) = Some err"
| "failure_of v = None"

section \<open>Sample provider objects and clients\<close>

text \<open>
  A provider user without a confirmation timestamp, a session around it, the two
  responses without payload, and a client every method of which has the same outcome.
\<close>

definition sample_user :: supabase_user where
  "sample_user =
     \<lparr> sb_id = ''u1'',
       sb_email = Defined ''ana@unicordoba.edu.co'',
       user_metadata = Defined \<lparr> full_name = Some ''Ana Ruiz'' \<rparr>,
       created_at = ''2024-01-01T00:00:00Z'',
       email_confirmed_at = Undefined \<rparr>"

definition sample_session :: "int js_opt \<Rightarrow> supabase_session" where
  "sample_session expiry =
     \<lparr> sb_user = sample_user, access_token = ''at'', refresh_token = ''rt'',
       expires_at = expiry \<rparr>"

definition error_response :: "string \<Rightarrow> response" where
  "error_response msg =
     \<lparr> data = \<lparr> d_user = None, d_session = None \<rparr>,
       error = Some \<lparr> sb_message = msg \<rparr> \<rparr>"

definition empty_response :: response where
  "empty_response = \<lparr> data = \<lparr> d_user = None, d_session = None \<rparr>, error = None \<rparr>"

definition uniform_client :: "exn + response \<Rightarrow> supabase_client" where
  "uniform_client out =
     \<lparr> auth_getUser = out,
       auth_getSession = out,
       auth_signInWithPassword = (\<lambda>em pw. out),
       auth_signUp = (\<lambda>em pw fn. out),
       auth_signOut = out,
       auth_resetPasswordForEmail = (\<lambda>em url. out),
       auth_updateUser = (\<lambda>pw. out) \<rparr>"

definition env_of :: "exn + response \<Rightarrow> env" where
  "env_of out =
     \<lparr> createClient = Inr (uniform_client out),
       NEXT_PUBLIC_APP_URL = Some ''http://localhost:3000'' \<rparr>"

section \<open>Properties of the domain model\<close>

lemma starts_with_iff: "starts_with s p \<longleftrightarrow> (\<exists>b. s = p @ b)"
  by (induction s p rule: starts_with.induct) auto

lemma includes_iff: "includes_str s p \<longleftrightarrow> (\<exists>a b. s = a @ p @ b)"
proof (induction s)
  case Nil
  then show ?case by auto
next
  case (Cons c cs)
  show ?case
  proof
    assume "includes_str (c # cs) p"
    then consider "starts_with (c # cs) p" | "includes_str cs p" by auto
    then show "\<exists>a b. c # cs = a @ p @ b"
    proof cases
      case 1
      then obtain b where "c # cs = p @ b" by (auto simp: starts_with_iff)
      then have "c # cs = [] @ p @ b" by simp
      then show ?thesis by blast
    next
      case 2
      then obtain a b where "cs = a @ p @ b" using Cons.IH by auto
      then have "c # cs = (c # a) @ p @ b" by simp
      then show ?thesis by blast
    qed
  next
    assume "\<exists>a b. c # cs = a @ p @ b"
    then obtain a b where ab: "c # cs = a @ p @ b" by blast
    show "includes_str (c # cs) p"
    proof (cases a)
      case Nil
      with ab have "starts_with (c # cs) p" by (auto simp: starts_with_iff)
      then show ?thesis by simp
    next
      case (Cons x a')
      with ab have "cs = a' @ p @ b" by simp
      then have "includes_str cs p" using Cons.IH by blast
      then show ?thesis by simp
    qed
  qed
qed

text \<open>
  The mapper's flag is the comparison with \<open>null\<close> and nothing else.
\<close>

lemma mapSupabaseUser_emailVerified:
  "emailVerified (mapSupabaseUser u) \<longleftrightarrow> email_confirmed_at u \<noteq> Null"
  by (simp add: mapSupabaseUser_def)

text \<open>
  C1. The claim: for a provider user with an email, \<open>emailVerified\<close> is true exactly
  when the provider recorded a confirmation timestamp, and false when the timestamp is
  null or missing. At a provider user with an email whose \<open>email_confirmed_at\<close> is
  missing, the mapper gives \<open>emailVerified = true\<close>: \<open>undefined !== null\<close> holds.
\<close>

theorem mapSupabaseUser_missing_confirmation:
  "sb_email sample_user = Defined ''ana@unicordoba.edu.co''
   \<and> email_confirmed_at sample_user = Undefined
   \<and> emailVerified (mapSupabaseUser sample_user) = True"
  by (simp add: sample_user_def mapSupabaseUser_def)

text \<open>
  C7. For each of the eight members of the error-type enumeration, \<open>createAuthError\<close>
  returns an error of that type whose message is the table's entry for the type, a
  non-empty string, and whose details are the details argument unchanged.
\<close>

theorem createAuthError_total_lookup:
  "error_type (createAuthError t d) = t
   \<and> message (createAuthError t d) = AUTH_ERROR_MESSAGES t
   \<and> AUTH_ERROR_MESSAGES t \<noteq> []
   \<and> details (createAuthError t d) = d
   \<and> t \<in> {INVALID_CREDENTIALS, USER_ALREADY_EXISTS, EMAIL_NOT_VERIFIED, WEAK_PASSWORD,
          NETWORK_ERROR, UNKNOWN_ERROR, SESSION_EXPIRED, INVALID_TOKEN}"
  by (cases t) (simp_all add: createAuthError_def)

text \<open>
  C8. A provider session that carries the expiry \<open>n\<close> maps to a session whose
  \<open>expiresAt\<close> is \<open>n\<close>; a provider session without expiry maps to \<open>expiresAt = 0\<close>.
\<close>

theorem mapSupabaseSession_expiry:
  "(expires_at s = Defined n \<longrightarrow> expiresAt (mapSupabaseSession s) = n)
   \<and> (expires_at s = Undefined \<longrightarrow> expiresAt (mapSupabaseSession s) = 0)"
  by (simp add: mapSupabaseSession_def or_zero_def)

theorem mapSupabaseSession_expiry_witness:
  "expires_at (sample_session (Defined 1735689600)) = Defined 1735689600
   \<and> expiresAt (mapSupabaseSession (sample_session (Defined 1735689600))) = 1735689600
   \<and> expires_at (sample_session Undefined) = Undefined
   \<and> expiresAt (mapSupabaseSession (sample_session Undefined)) = 0"
  using mapSupabaseSession_expiry [of "sample_session (Defined 1735689600)" 1735689600]
    mapSupabaseSession_expiry [of "sample_session Undefined" 0]
  by (simp add: sample_session_def)

section \<open>Properties of the repository\<close>

text \<open>
  The provider call of a method throws exactly when creating the client throws or the
  method of \<open>supabase.auth\<close> throws.
\<close>

lemma provider_call_cases:
  "provider_call e op = Inl x \<longleftrightarrow>
     createClient e = Inl x
     \<or> (\<exists>supabase. createClient e = Inr supabase \<and>
          (case op of
             GetCurrentUser \<Rightarrow> auth_getUser supabase
           | GetCurrentSession \<Rightarrow> auth_getSession supabase
           | SignInWithPassword em pw \<Rightarrow> auth_signInWithPassword supabase em pw
           | SignUp em pw fn \<Rightarrow> auth_signUp supabase em pw fn
           | SignOut \<Rightarrow> auth_signOut supabase
           | ResetPasswordRequest em \<Rightarrow>
               auth_resetPasswordForEmail supabase em
                 (template (NEXT_PUBLIC_APP_URL e) @ ''/reset-password'')
           | UpdatePassword pw \<Rightarrow> auth_updateUser supabase pw) = Inl x)"
  by (cases op; cases "createClient e") (simp_all add: await_def)

text \<open>
  C3. When the provider answers sign-in with an error, the result is a failure and
  nothing is written to the console. A message containing \<open>Invalid login credentials\<close>
  gives \<open>INVALID_CREDENTIALS\<close> with the fixed Spanish message; otherwise a message
  containing \<open>Email not confirmed\<close> gives \<open>EMAIL_NOT_VERIFIED\<close>; otherwise the type is
  \<open>UNKNOWN_ERROR\<close> and the details are the provider's message.
\<close>

theorem signIn_error_classification:
  assumes "createClient e = Inr supabase"
    and "auth_signInWithPassword supabase em pw = Inr r"
    and "error r = Some err"
  shows "signInWithPassword e em pw =
     ([], Inr (Failure
       (if (\<exists>a b. sb_message err = a @ ''Invalid login credentials'' @ b)
        then \<lparr> error_type = INVALID_CREDENTIALS,
               message = ''Correo o contrase'' @ n_tilde @ ''a incorrectos'',
               details = None \<rparr>
        else if (\<exists>a b. sb_message err = a @ ''Email not confirmed'' @ b)
        then \<lparr> error_type = EMAIL_NOT_VERIFIED,
               message = AUTH_ERROR_MESSAGES EMAIL_NOT_VERIFIED,
               details = None \<rparr>
        else \<lparr> error_type = UNKNOWN_ERROR,
               message = AUTH_ERROR_MESSAGES UNKNOWN_ERROR,
               details = Some (sb_message err) \<rparr>)))"
  using assms
  by (simp add: signInWithPassword_def try_catch_def await_def createAuthError_def
      includes_iff)

theorem signIn_error_classification_witness:
  "createClient (env_of (Inr (error_response ''Invalid login credentials'')))
     = Inr (uniform_client (Inr (error_response ''Invalid login credentials'')))
   \<and> signInWithPassword (env_of (Inr (error_response ''Invalid login credentials'')))
        ''ana@unicordoba.edu.co'' ''wrong''
     = ([], Inr (Failure \<lparr> error_type = INVALID_CREDENTIALS,
               message = ''Correo o contrase'' @ n_tilde @ ''a incorrectos'',
               details = None \<rparr>))"
proof -
  have "includes_str ''Invalid login credentials'' ''Invalid login credentials''"
    by simp
  then have ex: "\<exists>a b. ''Invalid login credentials'' = a @ ''Invalid login credentials'' @ b"
    by (simp only: includes_iff)
  show ?thesis
    using ex signIn_error_classification
      [of "env_of (Inr (error_response ''Invalid login credentials''))"
        "uniform_client (Inr (error_response ''Invalid login credentials''))"
        "''ana@unicordoba.edu.co''" "''wrong''"
        "error_response ''Invalid login credentials''"
        "\<lparr> sb_message = ''Invalid login credentials'' \<rparr>"]
    by (simp add: env_of_def uniform_client_def error_response_def)
qed

text \<open>
  C4. When the provider answers sign-up with an error, the first matching pattern decides:
  a message containing \<open>User already registered\<close> gives \<open>USER_ALREADY_EXISTS\<close>, also when
  it contains \<open>Password\<close> as well; otherwise a message containing \<open>Password\<close> gives
  \<open>WEAK_PASSWORD\<close>; otherwise \<open>UNKNOWN_ERROR\<close> with the provider's message as details.
\<close>

theorem signUp_error_classification:
  assumes "createClient e = Inr supabase"
    and "auth_signUp supabase em pw fn = Inr r"
    and "error r = Some err"
  shows "signUp e em pw fn =
     ([], Inr (Failure
       (if (\<exists>a b. sb_message err = a @ ''User already registered'' @ b)
        then \<lparr> error_type = USER_ALREADY_EXISTS,
               message = AUTH_ERROR_MESSAGES USER_ALREADY_EXISTS,
               details = None \<rparr>
        else if (\<exists>a b. sb_message err = a @ ''Password'' @ b)
        then \<lparr> error_type = WEAK_PASSWORD,
               message = AUTH_ERROR_MESSAGES WEAK_PASSWORD,
               details = None \<rparr>
        else \<lparr> error_type = UNKNOWN_ERROR,
               message = AUTH_ERROR_MESSAGES UNKNOWN_ERROR,
               details = Some (sb_message err) \<rparr>)))"
  using assms
  by (simp add: signUp_def try_catch_def await_def createAuthError_def includes_iff)

theorem signUp_error_classification_witness:
  "createClient (env_of (Inr (error_response ''User already registered. Password unchanged'')))
     = Inr (uniform_client (Inr (error_response ''User already registered. Password unchanged'')))
   \<and> (\<exists>a b. ''User already registered. Password unchanged'' = a @ ''Password'' @ b)
   \<and> signUp (env_of (Inr (error_response ''User already registered. Password unchanged'')))
        ''ana@unicordoba.edu.co'' ''Secreta123'' ''Ana Ruiz''
     = ([], Inr (Failure \<lparr> error_type = USER_ALREADY_EXISTS,
               message = ''Ya existe una cuenta con este correo'',
               details = None \<rparr>))"
proof -
  have "includes_str ''User already registered. Password unchanged'' ''User already registered''"
    by simp
  then have ex:
    "\<exists>a b. ''User already registered. Password unchanged'' = a @ ''User already registered'' @ b"
    by (simp only: includes_iff)
  have "includes_str ''User already registered. Password unchanged'' ''Password''"
    by simp
  then have ex2: "\<exists>a b. ''User already registered. Password unchanged'' = a @ ''Password'' @ b"
    by (simp only: includes_iff)
  have res: "signUp (env_of (Inr (error_response ''User already registered. Password unchanged'')))
        ''ana@unicordoba.edu.co'' ''Secreta123'' ''Ana Ruiz''
     = ([], Inr (Failure \<lparr> error_type = USER_ALREADY_EXISTS,
               message = ''Ya existe una cuenta con este correo'',
               details = None \<rparr>))"
    using ex signUp_error_classification
      [of "env_of (Inr (error_response ''User already registered. Password unchanged''))"
        "uniform_client (Inr (error_response ''User already registered. Password unchanged''))"
        "''ana@unicordoba.edu.co''" "''Secreta123''" "''Ana Ruiz''"
        "error_response ''User already registered. Password unchanged''"
        "\<lparr> sb_message = ''User already registered. Password unchanged'' \<rparr>"]
    by (simp add: env_of_def uniform_client_def error_response_def)
  show ?thesis using ex2 res by (simp add: env_of_def)
qed

text \<open>
  C5. When the provider answers sign-in or sign-up without an error and without a
  session, the result is a failure of type \<open>UNKNOWN_ERROR\<close>, not a success.
\<close>

theorem absent_session_is_unknown_error:
  assumes "createClient e = Inr supabase"
    and "error r = None"
    and "d_session (data r) = None"
  shows "(auth_signInWithPassword supabase em pw = Inr r \<longrightarrow>
            signInWithPassword e em pw =
              ([], Inr (Failure \<lparr> error_type = UNKNOWN_ERROR,
                     message = AUTH_ERROR_MESSAGES UNKNOWN_ERROR, details = None \<rparr>)))
       \<and> (auth_signUp supabase em pw fn = Inr r \<longrightarrow>
            signUp e em pw fn =
              ([], Inr (Failure \<lparr> error_type = UNKNOWN_ERROR,
                     message = AUTH_ERROR_MESSAGES UNKNOWN_ERROR, details = None \<rparr>)))"
  using assms
  by (simp add: signInWithPassword_def signUp_def try_catch_def await_def createAuthError_def)

theorem absent_session_is_unknown_error_witness:
  "createClient (env_of (Inr empty_response)) = Inr (uniform_client (Inr empty_response))
   \<and> error empty_response = None
   \<and> d_session (data empty_response) = None
   \<and> auth_signInWithPassword (uniform_client (Inr empty_response))
        ''ana@unicordoba.edu.co'' ''Secreta123'' = Inr empty_response
   \<and> signInWithPassword (env_of (Inr empty_response)) ''ana@unicordoba.edu.co'' ''Secreta123''
      = ([], Inr (Failure \<lparr> error_type = UNKNOWN_ERROR,
                     message = AUTH_ERROR_MESSAGES UNKNOWN_ERROR, details = None \<rparr>))
   \<and> auth_signUp (uniform_client (Inr empty_response))
        ''ana@unicordoba.edu.co'' ''Secreta123'' ''Ana Ruiz'' = Inr empty_response
   \<and> signUp (env_of (Inr empty_response)) ''ana@unicordoba.edu.co'' ''Secreta123'' ''Ana Ruiz''
      = ([], Inr (Failure \<lparr> error_type = UNKNOWN_ERROR,
                     message = AUTH_ERROR_MESSAGES UNKNOWN_ERROR, details = None \<rparr>))"
  using absent_session_is_unknown_error
    [of "env_of (Inr empty_response)" "uniform_client (Inr empty_response)" empty_response
        "''ana@unicordoba.edu.co''" "''Secreta123''" "''Ana Ruiz''"]
  by (simp add: env_of_def uniform_client_def empty_response_def)

text \<open>
  C6. \<open>getCurrentUser\<close> and \<open>getCurrentSession\<close> return null when the provider call
  throws, when the provider reports an error, and when the user or session is absent (so
  also with no user and no error); neither ever throws.
\<close>

theorem read_paths_return_null:
  "(provider_call e GetCurrentUser = Inl x
      \<or> (\<exists>r. provider_call e GetCurrentUser = Inr r
               \<and> (error r \<noteq> None \<or> d_user (data r) = None))
     \<longrightarrow> snd (getCurrentUser e) = Inr None)
   \<and> (provider_call e GetCurrentSession = Inl x
      \<or> (\<exists>r. provider_call e GetCurrentSession = Inr r
               \<and> (error r \<noteq> None \<or> d_session (data r) = None))
     \<longrightarrow> snd (getCurrentSession e) = Inr None)
   \<and> snd (getCurrentUser e) \<noteq> Inl x
   \<and> snd (getCurrentSession e) \<noteq> Inl x"
  by (auto simp: getCurrentUser_def getCurrentSession_def try_catch_def await_def
      split: sum.splits option.splits)

theorem read_paths_return_null_witness:
  "provider_call (env_of (Inr empty_response)) GetCurrentUser = Inr empty_response
   \<and> error empty_response = None \<and> d_user (data empty_response) = None
   \<and> snd (getCurrentUser (env_of (Inr empty_response))) = Inr None
   \<and> provider_call (env_of (Inr (error_response ''Auth session missing!''))) GetCurrentSession
       = Inr (error_response ''Auth session missing!'')
   \<and> error (error_response ''Auth session missing!'') \<noteq> None
   \<and> snd (getCurrentSession (env_of (Inr (error_response ''Auth session missing!'')))) = Inr None"
  using read_paths_return_null [of "env_of (Inr empty_response)" "Exn ''none''"]
    read_paths_return_null [of "env_of (Inr (error_response ''Auth session missing!''))"
      "Exn ''none''"]
  by (simp add: env_of_def uniform_client_def empty_response_def error_response_def await_def)

text \<open>
  C9. When the provider answers update-password with an error, a message containing
  \<open>token\<close> gives a failure of type \<open>INVALID_TOKEN\<close>; any other message gives
  \<open>UNKNOWN_ERROR\<close> with the provider's message as details.
\<close>

theorem updatePassword_error_classification:
  assumes "createClient e = Inr supabase"
    and "auth_updateUser supabase pw = Inr r"
    and "error r = Some err"
  shows "updatePassword e pw =
     ([], Inr (Failure
       (if (\<exists>a b. sb_message err = a @ ''token'' @ b)
        then \<lparr> error_type = INVALID_TOKEN,
               message = AUTH_ERROR_MESSAGES INVALID_TOKEN,
               details = None \<rparr>
        else \<lparr> error_type = UNKNOWN_ERROR,
               message = AUTH_ERROR_MESSAGES UNKNOWN_ERROR,
               details = Some (sb_message err) \<rparr>)))"
  using assms
  by (simp add: updatePassword_def try_catch_def await_def createAuthError_def includes_iff)

theorem updatePassword_error_classification_witness:
  "createClient (env_of (Inr (error_response ''Invalid token: expired'')))
     = Inr (uniform_client (Inr (error_response ''Invalid token: expired'')))
   \<and> updatePassword (env_of (Inr (error_response ''Invalid token: expired''))) ''Nueva1234''
     = ([], Inr (Failure \<lparr> error_type = INVALID_TOKEN,
               message = AUTH_ERROR_MESSAGES INVALID_TOKEN,
               details = None \<rparr>))"
proof -
  have "includes_str ''Invalid token: expired'' ''token''"
    by simp
  then have ex: "\<exists>a b. ''Invalid token: expired'' = a @ ''token'' @ b"
    by (simp only: includes_iff)
  show ?thesis
    using ex updatePassword_error_classification
      [of "env_of (Inr (error_response ''Invalid token: expired''))"
        "uniform_client (Inr (error_response ''Invalid token: expired''))"
        "''Nueva1234''"
        "error_response ''Invalid token: expired''"
        "\<lparr> sb_message = ''Invalid token: expired'' \<rparr>"]
    by (simp add: env_of_def uniform_client_def error_response_def)
qed

text \<open>
  C2, as the code has it. When the provider call of a method throws, the exception is
  caught and written to the console once. The five methods that return a result (sign-in,
  sign-up, sign-out, reset-password-request, update-password) return a failure of type
  \<open>NETWORK_ERROR\<close> with the fixed message and no details; \<open>getCurrentUser\<close> and
  \<open>getCurrentSession\<close> return null. No method lets the exception through.
\<close>

theorem transport_exception_is_caught:
  assumes "provider_call e op = Inl x"
  shows "snd (authRepository e op) =
     Inr (case op of
            GetCurrentUser \<Rightarrow> UserOrNull None
          | GetCurrentSession \<Rightarrow> SessionOrNull None
          | SignInWithPassword em pw \<Rightarrow>
              SessionResult (Failure (createAuthError NETWORK_ERROR None))
          | SignUp em pw fn \<Rightarrow> SessionResult (Failure (createAuthError NETWORK_ERROR None))
          | SignOut \<Rightarrow> VoidResult (Failure (createAuthError NETWORK_ERROR None))
          | ResetPasswordRequest em \<Rightarrow>
              VoidResult (Failure (createAuthError NETWORK_ERROR None))
          | UpdatePassword pw \<Rightarrow> VoidResult (Failure (createAuthError NETWORK_ERROR None)))
   \<and> map snd (fst (authRepository e op)) = [x]
   \<and> createAuthError NETWORK_ERROR None =
       \<lparr> error_type = NETWORK_ERROR,
         message = ''Error de conexi'' @ o_acute @ ''n. Verifica tu internet'',
         details = None \<rparr>"
  using assms
  by (cases op)
     (auto simp: returning_def getCurrentUser_def getCurrentSession_def
        signInWithPassword_def signUp_def signOut_def resetPasswordRequest_def
        updatePassword_def try_catch_def await_def createAuthError_def
        split: sum.splits)

theorem transport_exception_is_caught_witness:
  "provider_call (env_of (Inl (Exn ''fetch failed''))) (SignInWithPassword ''ana@unicordoba.edu.co'' ''Secreta123'')
     = Inl (Exn ''fetch failed'')
   \<and> authRepository (env_of (Inl (Exn ''fetch failed''))) (SignInWithPassword ''ana@unicordoba.edu.co'' ''Secreta123'')
     = ([(''Error en signInWithPassword:'', Exn ''fetch failed'')],
        Inr (SessionResult (Failure
          \<lparr> error_type = NETWORK_ERROR,
            message = ''Error de conexi'' @ o_acute @ ''n. Verifica tu internet'',
            details = None \<rparr>)))"
  using transport_exception_is_caught
    [of "env_of (Inl (Exn ''fetch failed''))"
        "SignInWithPassword ''ana@unicordoba.edu.co'' ''Secreta123''" "Exn ''fetch failed''"]
  by (simp add: env_of_def uniform_client_def await_def returning_def signInWithPassword_def
      try_catch_def createAuthError_def)

text \<open>
  C2, as the claim has it, fails for the two read methods: with a client whose calls
  throw, \<open>getCurrentUser\<close> returns null, which is not a failure result and carries no
  \<open>NETWORK_ERROR\<close>.
\<close>

theorem read_path_transport_exception_counterexample:
  "provider_call (env_of (Inl (Exn ''fetch failed''))) GetCurrentUser = Inl (Exn ''fetch failed'')
   \<and> snd (authRepository (env_of (Inl (Exn ''fetch failed''))) GetCurrentUser)
       = Inr (UserOrNull None)
   \<and> failure_of (UserOrNull None) = None"
  by (simp add: env_of_def uniform_client_def await_def returning_def getCurrentUser_def
      try_catch_def)

text \<open>
  C10. Whatever method is called, an error it returns has details only when its type is
  \<open>UNKNOWN_ERROR\<close> and the provider reported an error, and the details are then the
  provider's message. Errors of a pattern-classified type and of type \<open>NETWORK_ERROR\<close>
  have no details, and neither has the \<open>UNKNOWN_ERROR\<close> for an absent payload.
\<close>

theorem details_only_for_unclassified_provider_errors:
  assumes "snd (authRepository e op) = Inr v"
    and "failure_of v = Some err"
  shows "(details err \<noteq> None \<longrightarrow>
            error_type err = UNKNOWN_ERROR
            \<and> (\<exists>r perr. provider_call e op = Inr r \<and> error r = Some perr
                  \<and> details err = Some (sb_message perr)))
       \<and> (error_type err \<in> {INVALID_CREDENTIALS, EMAIL_NOT_VERIFIED, USER_ALREADY_EXISTS,
              WEAK_PASSWORD, INVALID_TOKEN, NETWORK_ERROR} \<longrightarrow> details err = None)
       \<and> (\<forall>r. provider_call e op = Inr r \<and> error r = None \<longrightarrow> details err = None)
       \<and> (\<forall>r perr. provider_call e op = Inr r \<and> error r = Some perr
              \<and> error_type err = UNKNOWN_ERROR \<longrightarrow> details err = Some (sb_message perr))"
  using assms
  by (cases op)
     (auto simp: returning_def getCurrentUser_def getCurrentSession_def
        signInWithPassword_def signUp_def signOut_def resetPasswordRequest_def
        updatePassword_def try_catch_def await_def createAuthError_def
        split: sum.splits option.splits if_splits)

theorem details_only_for_unclassified_provider_errors_witness:
  "snd (authRepository (env_of (Inr (error_response ''Database error''))) SignOut)
     = Inr (VoidResult (Failure (createAuthError UNKNOWN_ERROR (Some ''Database error''))))
   \<and> failure_of (VoidResult (Failure (createAuthError UNKNOWN_ERROR (Some ''Database error''))))
     = Some (createAuthError UNKNOWN_ERROR (Some ''Database error''))
   \<and> provider_call (env_of (Inr (error_response ''Database error''))) SignOut
     = Inr (error_response ''Database error'')
   \<and> error (error_response ''Database error'') = Some \<lparr> sb_message = ''Database error'' \<rparr>
   \<and> error_type (createAuthError UNKNOWN_ERROR (Some ''Database error'')) = UNKNOWN_ERROR
   \<and> details (createAuthError UNKNOWN_ERROR (Some ''Database error''))
     = Some ''Database error''"
  using details_only_for_unclassified_provider_errors
    [of "env_of (Inr (error_response ''Database error''))" SignOut
        "VoidResult (Failure (createAuthError UNKNOWN_ERROR (Some ''Database error'')))"
        "createAuthError UNKNOWN_ERROR (Some ''Database error'')"]
  by (simp add: env_of_def uniform_client_def error_response_def await_def returning_def
      signOut_def try_catch_def createAuthError_def)

end
